theory Spec2Isabelle
  imports Main "HOL-Library.Sublist"
begin

section \<open>Data model of the script \<open>QR_code-generator-encoder.py\<close>\<close>

text \<open>
  The script is orchestration glue around three libraries (qrcode, PIL, OpenCV) and the
  Streamlit session. The model follows the script's control flow literally. What a
  library call returns or raises is not defined by the script, so every library call is
  a field of the record \<open>libs\<close>; a call that may raise returns \<open>exn + 'a\<close> with
  \<open>Inl\<close> the exception. \<open>'qr\<close> is a \<open>qrcode.QRCode\<close> object, \<open>'img\<close> a PIL image,
  \<open>'mat\<close> a numpy array.
\<close>

type_synonym bytes = "nat list"
type_synonym path = string
type_synonym fs = "path \<rightharpoonup> bytes"

datatype exn = Exception string

fun str :: "exn \<Rightarrow> string" where
  "str (Exception m) = m"

datatype ecl = ERROR_CORRECT_L | ERROR_CORRECT_M | ERROR_CORRECT_Q | ERROR_CORRECT_H

record ('qr, 'img, 'mat) libs =
  qrcode_QRCode :: "nat \<Rightarrow> ecl \<Rightarrow> int \<Rightarrow> int \<Rightarrow> exn + 'qr"
  qr_add_data :: "'qr \<Rightarrow> string \<Rightarrow> 'qr"
  qr_make :: "'qr \<Rightarrow> bool \<Rightarrow> exn + 'qr"
  qr_make_image :: "'qr \<Rightarrow> string \<Rightarrow> string \<Rightarrow> exn + 'img"
  qr_image_save :: "'img \<Rightarrow> string \<Rightarrow> exn + bytes"
  Image_open :: "bytes \<Rightarrow> exn + 'img"
  st_image :: "'img \<Rightarrow> string \<Rightarrow> exn + unit"
  NamedTemporaryFile :: "fs \<Rightarrow> string \<Rightarrow> path"
  image_save :: "'img \<Rightarrow> path \<Rightarrow> exn + bytes"
  cv2_imread :: "bytes option \<Rightarrow> 'mat option"
  detectAndDecode :: "'mat option \<Rightarrow> exn + (string \<times> 'mat option \<times> 'mat option)"

text \<open>
  The values the widgets of one script run return: the text area, the two sliders, the
  select box, the two colour pickers, the Generate and Copy buttons, the file uploader,
  and the clock read by \<open>datetime.now().strftime\<close>.
\<close>

record inputs =
  qr_data :: string
  qr_size :: int
  qr_border :: int
  error_correction :: string
  fill_color :: string
  back_color :: string
  generate_clicked :: bool
  timestamp :: string
  uploaded_file :: "bytes option"
  copy_clicked :: bool

text \<open>\<open>st.session_state\<close>: a key that was never assigned is \<open>None\<close>.\<close>

record 'img session =
  qr_image :: "'img option"
  qr_bytes :: "bytes option"
  show_qr :: "bool option"

text \<open>
  The display calls the script makes, in order, each with the arguments the script gives
  it (\<open>st.markdown\<close>, \<open>st.subheader\<close>, \<open>st.error\<close>, \<open>st.success\<close>, \<open>st.info\<close>,
  \<open>st.code\<close>, \<open>st.text_area\<close> with label and value, \<open>st.button\<close>, \<open>st.image\<close> on
  bytes, on a URL and on a PIL image, \<open>st.download_button\<close>). How Streamlit renders a
  call is outside the script.
\<close>

datatype 'img ui =
    Markdown string
  | Subheader string
  | Error string
  | Success string
  | Info string
  | Code string
  | Text_area string string
  | Button string
  | Image_bytes bytes string
  | Image_url string
  | Image_pil 'img string
  | Download_button string bytes string string

section \<open>Tab 1: generate\<close>

definition generate_header :: "'img ui" where
  \<open>generate_header = Markdown ''<h2 class="sub-header">Generate QR Code</h2>''\<close>

definition decode_header :: "'img ui" where
  \<open>decode_header = Markdown ''<h2 class="sub-header">Decode QR Code</h2>''\<close>

text \<open>\<open>error_dict.get(error_level, ERROR_CORRECT_M)\<close>\<close>

definition error_dict :: "char \<rightharpoonup> ecl" where
  "error_dict = [CHR ''L'' \<mapsto> ERROR_CORRECT_L, CHR ''M'' \<mapsto> ERROR_CORRECT_M,
                 CHR ''Q'' \<mapsto> ERROR_CORRECT_Q, CHR ''H'' \<mapsto> ERROR_CORRECT_H]"

definition dict_get :: "('k \<rightharpoonup> 'v) \<Rightarrow> 'k \<Rightarrow> 'v \<Rightarrow> 'v" where
  "dict_get d k dflt = (case d k of None \<Rightarrow> dflt | Some v \<Rightarrow> v)"

text \<open>
  Lines 103-137, the body of \<open>if st.button("Generate QR Code")\<close>. No exception is caught
  here: one raised by the library leaves the script, before any of the three assignments
  to the session state.
\<close>

definition generate ::
  "('qr, 'img, 'mat) libs \<Rightarrow> inputs \<Rightarrow> 'img session \<Rightarrow> exn + ('img ui list \<times> 'img session)" where
  "generate L inp s =
     (if generate_clicked inp then
        (if qr_data inp = [] then
           Inr ([Error ''Please enter text or URL to generate QR code.''], s)
         else
           (case error_correction inp of
              [] \<Rightarrow> Inl (Exception ''string index out of range'')
            | error_level # _ \<Rightarrow>
               (case qrcode_QRCode L 1 (dict_get error_dict error_level ERROR_CORRECT_M)
                       (qr_size inp) (qr_border inp) of
                  Inl e \<Rightarrow> Inl e
                | Inr qr \<Rightarrow>
                   (case qr_make L (qr_add_data L qr (qr_data inp)) True of
                      Inl e \<Rightarrow> Inl e
                    | Inr qr' \<Rightarrow>
                       (case qr_make_image L qr' (fill_color inp) (back_color inp) of
                          Inl e \<Rightarrow> Inl e
                        | Inr qr_img \<Rightarrow>
                           (case qr_image_save L qr_img ''PNG'' of
                              Inl e \<Rightarrow> Inl e
                            | Inr img_bytes \<Rightarrow>
                               Inr ([], s\<lparr>qr_image := Some qr_img,
                                          qr_bytes := Some img_bytes,
                                          show_qr := Some True\<rparr>)))))))
      else Inr ([], s))"

text \<open>
  Lines 141-163, the preview column. It reads the session state, whichever run wrote it.
  Reading \<open>st.session_state.qr_bytes\<close> when the key is absent raises.
\<close>

definition preview :: "inputs \<Rightarrow> 'img session \<Rightarrow> exn + 'img ui list" where
  \<open>preview inp s =
     (if show_qr s = Some True then
        (case qr_bytes s of
           None \<Rightarrow> Inl (Exception ''st.session_state has no attribute "qr_bytes"'')
         | Some b \<Rightarrow>
            Inr [Subheader ''QR Code Preview'',
                 Image_bytes b ''Generated QR Code'',
                 Download_button ''Download QR Code'' b
                   (''qrcode_'' @ timestamp inp @ ''.png'') ''image/png'',
                 Info (''Encoded data: '' @ take 50 (qr_data inp)
                       @ (if length (qr_data inp) > 50 then ''...'' else ''''))])
      else
        Inr [Subheader ''QR Code Preview'',
             Info ''QR code preview will appear here after generation.'',
             Image_url ''https://via.placeholder.com/300x300?text=QR+Code+Preview''])\<close>

definition tab1 ::
  "('qr, 'img, 'mat) libs \<Rightarrow> inputs \<Rightarrow> 'img session \<Rightarrow> exn + ('img ui list \<times> 'img session)" where
  \<open>tab1 L inp s =
     (case generate L inp s of
        Inl e \<Rightarrow> Inl e
      | Inr (u1, s1) \<Rightarrow>
         (case preview inp s1 of
            Inl e \<Rightarrow> Inl e
          | Inr u2 \<Rightarrow> Inr (generate_header # Subheader ''QR Code Options'' # u1 @ u2, s1)))\<close>

section \<open>Tab 2: decode\<close>

text \<open>\<open>s.startswith(p)\<close> and \<open>s.startswith((p1, p2, ...))\<close>\<close>

definition startswith :: "string \<Rightarrow> string \<Rightarrow> bool" where
  "startswith s p = (take (length p) s = p)"

definition startswith_any :: "string \<Rightarrow> string list \<Rightarrow> bool" where
  "startswith_any s ps = list_ex (startswith s) ps"

text \<open>Lines 199-215, the \<open>if decoded_data: ... else: ...\<close> that displays the result.\<close>

definition display_results :: "string \<Rightarrow> bool \<Rightarrow> 'img ui list" where
  \<open>display_results decoded_data copy =
     (if decoded_data \<noteq> [] then
        [Markdown ''<p class="success-text">QR Code detected!</p>'',
         Subheader ''Decoded Data:'',
         Text_area '''' decoded_data,
         Button ''Copy to Clipboard'']
        @ (if copy then
             [Code decoded_data,
              Success ''Copied to clipboard! (You can select and copy the text above)'']
           else [])
        @ (if startswith_any decoded_data [''http://'', ''https://'', ''www.''] then
             [Markdown (''[Open URL]('' @ decoded_data @ '')'')]
           else [])
      else [Error ''No QR code detected in the image.''])\<close>

text \<open>
  Lines 184-218, the body of the \<open>try\<close>. \<open>NamedTemporaryFile(delete=False)\<close> creates an
  empty file that closing does not delete; \<open>image.save\<close> writes the image to that path;
  \<open>cv2.imread\<close> reads the path and yields \<open>None\<close> rather than raising;
  \<open>os.unlink\<close> is the last statement. The result is the exception that left the body,
  or what was displayed, together with the file system as the body leaves it.
\<close>

definition try_body ::
  "('qr, 'img, 'mat) libs \<Rightarrow> inputs \<Rightarrow> 'img \<Rightarrow> fs \<Rightarrow> (exn + 'img ui list) \<times> fs" where
  "try_body L inp pil_image files =
     (let tmp_filename = NamedTemporaryFile L files ''.png'';
          files1 = files(tmp_filename \<mapsto> [])
      in case image_save L pil_image tmp_filename of
           Inl e \<Rightarrow> (Inl e, files1)
         | Inr png \<Rightarrow>
            (let files2 = files1(tmp_filename \<mapsto> png);
                 img = cv2_imread L (files2 tmp_filename)
             in case detectAndDecode L img of
                  Inl e \<Rightarrow> (Inl e, files2)
                | Inr (decoded_data, bbox, straight) \<Rightarrow>
                   (Inr (display_results decoded_data (copy_clicked inp)),
                    files2(tmp_filename := None))))"

text \<open>
  Lines 167-221. \<open>Image.open\<close> (line 178) and \<open>st.image\<close> of the uploaded image
  (line 179, which loads and resizes the image) stand before the \<open>try\<close>, so what either
  raises leaves the script; \<open>except Exception\<close> (line 220) turns what the body raises
  into an error banner and does nothing else.
\<close>

definition decode_tab ::
  "('qr, 'img, 'mat) libs \<Rightarrow> inputs \<Rightarrow> fs \<Rightarrow> (exn + 'img ui list) \<times> fs" where
  \<open>decode_tab L inp files =
     (case uploaded_file inp of
        None \<Rightarrow> (Inr [decode_header], files)
      | Some upload \<Rightarrow>
         (case Image_open L upload of
            Inl e \<Rightarrow> (Inl e, files)
          | Inr pil_image \<Rightarrow>
             (case st_image L pil_image ''Uploaded Image'' of
                Inl e \<Rightarrow> (Inl e, files)
              | Inr _ \<Rightarrow>
                 (case try_body L inp pil_image files of
                    (Inr shown, files') \<Rightarrow>
                      (Inr ([decode_header,
                             Image_pil pil_image ''Uploaded Image''] @ shown), files')
                  | (Inl e, files') \<Rightarrow>
                      (Inr [decode_header,
                            Image_pil pil_image ''Uploaded Image'',
                            Error (''Error processing image: '' @ str e)], files')))))\<close>

section \<open>One run of the script\<close>

text \<open>
  Streamlit runs the script from top to bottom at every interaction; the session state and
  the file system are what one run leaves to the next. A run yields the exception that
  ended it, if any, what it displayed, and the two stores. The page set-up, the style
  sheet, the title and the sidebar (lines 12-61 and 223-249) are constant and left out.
  When an exception ends a tab, the display calls that tab made before it are not
  recorded; the stores are, as the exception leaves them.
\<close>

definition script ::
  "('qr, 'img, 'mat) libs \<Rightarrow> inputs \<Rightarrow> 'img session \<Rightarrow> fs
     \<Rightarrow> exn option \<times> 'img ui list \<times> 'img session \<times> fs" where
  "script L inp s files =
     (case tab1 L inp s of
        Inl e \<Rightarrow> (Some e, [], s, files)
      | Inr (u1, s1) \<Rightarrow>
         (case decode_tab L inp files of
            (Inl e, files') \<Rightarrow> (Some e, u1, s1, files')
          | (Inr u2, files') \<Rightarrow> (None, u1 @ u2, s1, files')))"

section \<open>Library stand-ins for running the model\<close>

text \<open>
  To run the script's model on concrete inputs the library record has to be filled in.
  \<open>fixed_libs opened saved detected\<close> answers \<open>Image.open\<close>, \<open>image.save\<close> and
  \<open>detectAndDecode\<close> with the three given outcomes; a QR object and its image are
  represented by the text they carry. None of the general theorems below refers to it.
\<close>

definition fixed_libs ::
  "exn + string \<Rightarrow> exn + bytes \<Rightarrow> exn + (string \<times> bytes option \<times> bytes option)
     \<Rightarrow> (string, string, bytes) libs" where
  "fixed_libs opened saved detected =
     \<lparr>qrcode_QRCode = (\<lambda>v ec bs b. Inr []),
      qr_add_data = (\<lambda>qr d. qr @ d),
      qr_make = (\<lambda>qr fit. Inr qr),
      qr_make_image = (\<lambda>qr f b. Inr qr),
      qr_image_save = (\<lambda>im fmt. Inr (map of_char im)),
      Image_open = (\<lambda>b. opened),
      st_image = (\<lambda>im caption. Inr ()),
      NamedTemporaryFile = (\<lambda>files suffix. ''/tmp/tmpk3v9x2'' @ suffix),
      image_save = (\<lambda>im p. saved),
      cv2_imread = (\<lambda>content. content),
      detectAndDecode = (\<lambda>m. detected)\<rparr>"

text \<open>A run's widget values with the defaults of the sliders, select box and pickers.\<close>

definition request :: "string \<Rightarrow> bool \<Rightarrow> bytes option \<Rightarrow> inputs" where
  "request content click upload =
     \<lparr>qr_data = content, qr_size = 10, qr_border = 4, error_correction = ''M (15%)'',
      fill_color = ''#000000'', back_color = ''#FFFFFF'', generate_clicked = click,
      timestamp = ''20240101_120000'', uploaded_file = upload, copy_clicked = False\<rparr>"

definition no_session :: "string session" where
  "no_session = \<lparr>qr_image = None, qr_bytes = None, show_qr = None\<rparr>"

section \<open>Empty content\<close>

text \<open>
  C5. When the Generate button is pressed with empty content, the script shows the
  validation error and nothing else happens: the session state is returned unchanged, no
  image is produced, and the outcome is the same whatever the libraries would have done,
  so none of them is called.
\<close>

theorem empty_content_is_validation_error:
  assumes "generate_clicked inp" and "qr_data inp = []"
  shows "generate L inp s = Inr ([Error ''Please enter text or URL to generate QR code.''], s)
         \<and> generate L' inp s = generate L inp s"
  using assms by (simp add: generate_def)

theorem empty_content_is_validation_error_witness:
  "generate_clicked (request [] True None) \<and> qr_data (request [] True None) = []
   \<and> generate (fixed_libs (Inr ''x'') (Inr [1]) (Inr (''x'', None, None)))
         (request [] True None) no_session
       = Inr ([Error ''Please enter text or URL to generate QR code.''], no_session)
   \<and> generate (fixed_libs (Inl (Exception ''a'')) (Inl (Exception ''b'')) (Inl (Exception ''c'')))
         (request [] True None) no_session
       = generate (fixed_libs (Inr ''x'') (Inr [1]) (Inr (''x'', None, None)))
           (request [] True None) no_session"
  using empty_content_is_validation_error
    [where inp = "request [] True None"
       and L = "fixed_libs (Inr ''x'') (Inr [1]) (Inr (''x'', None, None))"
       and L' = "fixed_libs (Inl (Exception ''a'')) (Inl (Exception ''b'')) (Inl (Exception ''c''))"
       and s = no_session]
  by (simp add: request_def)

section \<open>What one pass through the decode tab yields\<close>

text \<open>
  The five ways through lines 172-221, each as an equation: \<open>Image.open\<close> raises;
  displaying the uploaded image raises; \<open>image.save\<close> raises; \<open>detectAndDecode\<close>
  raises; or the detector returns. Only the last one reaches \<open>os.unlink\<close>.
\<close>

lemma decode_tab_open_raises:
  assumes "uploaded_file inp = Some upload"
    and "Image_open L upload = Inl e"
  shows "decode_tab L inp files = (Inl e, files)"
  using assms by (simp add: decode_tab_def)

lemma decode_tab_display_raises:
  assumes "uploaded_file inp = Some upload"
    and "Image_open L upload = Inr im"
    and "st_image L im ''Uploaded Image'' = Inl e"
  shows "decode_tab L inp files = (Inl e, files)"
  using assms by (simp add: decode_tab_def)

lemma decode_tab_save_raises:
  assumes "uploaded_file inp = Some upload"
    and "Image_open L upload = Inr im"
    and "st_image L im ''Uploaded Image'' = Inr ()"
    and "image_save L im (NamedTemporaryFile L files ''.png'') = Inl e"
  shows "decode_tab L inp files =
           (Inr [decode_header, Image_pil im ''Uploaded Image'',
                 Error (''Error processing image: '' @ str e)],
            (files(NamedTemporaryFile L files ''.png'' \<mapsto> [])))"
  using assms by (simp add: decode_tab_def try_body_def Let_def)

lemma decode_tab_detect_raises:
  assumes "uploaded_file inp = Some upload"
    and "Image_open L upload = Inr im"
    and "st_image L im ''Uploaded Image'' = Inr ()"
    and "image_save L im (NamedTemporaryFile L files ''.png'') = Inr png"
    and "detectAndDecode L (cv2_imread L (Some png)) = Inl e"
  shows "decode_tab L inp files =
           (Inr [decode_header, Image_pil im ''Uploaded Image'',
                 Error (''Error processing image: '' @ str e)],
            (files(NamedTemporaryFile L files ''.png'' \<mapsto> png)))"
  using assms by (simp add: decode_tab_def try_body_def Let_def)

lemma decode_tab_detected:
  assumes "uploaded_file inp = Some upload"
    and "Image_open L upload = Inr im"
    and "st_image L im ''Uploaded Image'' = Inr ()"
    and "image_save L im (NamedTemporaryFile L files ''.png'') = Inr png"
    and "detectAndDecode L (cv2_imread L (Some png)) = Inr (decoded_data, bbox, sc)"
  shows "decode_tab L inp files =
           (Inr ([decode_header, Image_pil im ''Uploaded Image'']
                 @ display_results decoded_data (copy_clicked inp)),
            (files(NamedTemporaryFile L files ''.png'' := None)))"
  using assms by (simp add: decode_tab_def try_body_def Let_def)

text \<open>
  On the path that reaches \<open>os.unlink\<close> the file system is left as it was found, given
  that the temporary name was fresh.
\<close>

lemma temp_file_removed_after_detection:
  assumes "uploaded_file inp = Some upload"
    and "Image_open L upload = Inr im"
    and "st_image L im ''Uploaded Image'' = Inr ()"
    and "image_save L im (NamedTemporaryFile L files ''.png'') = Inr png"
    and "detectAndDecode L (cv2_imread L (Some png)) = Inr (decoded_data, bbox, sc)"
    and "files (NamedTemporaryFile L files ''.png'') = None"
  shows "snd (decode_tab L inp files) = files"
  using decode_tab_detected [OF assms(1-5)] assms(6) by (simp add: fun_upd_idem_iff)

section \<open>The temporary file\<close>

text \<open>
  C2 (the code departs from the claim). \<open>os.unlink\<close> is the last statement of the
  \<open>try\<close> body and there is no \<open>finally\<close>, so an exception raised after the temporary file
  was created skips it. With \<open>image.save\<close> raising, the empty temporary file is still
  there when the handler has run; with \<open>detectAndDecode\<close> raising, the written file is
  still there; only when the detector returns is the file gone.
\<close>

theorem temp_file_survives_error:
  "snd (decode_tab (fixed_libs (Inr ''cmyk'') (Inl (Exception ''cannot write mode CMYK as PNG''))
                 (Inr ([], None, None)))
          (request [] False (Some [255, 216, 255])) Map.empty) ''/tmp/tmpk3v9x2.png'' = Some []
   \<and> snd (decode_tab (fixed_libs (Inr ''im'') (Inr [137, 80, 78, 71])
                 (Inl (Exception ''Bad argument'')))
          (request [] False (Some [137, 80, 78, 71])) Map.empty) ''/tmp/tmpk3v9x2.png''
       = Some [137, 80, 78, 71]
   \<and> snd (decode_tab (fixed_libs (Inr ''im'') (Inr [137, 80, 78, 71])
                 (Inr (''TEST123'', Some [1], Some [2])))
          (request [] False (Some [137, 80, 78, 71])) Map.empty) ''/tmp/tmpk3v9x2.png''
       = None"
  by (simp add: decode_tab_def try_body_def request_def fixed_libs_def)

section \<open>An image without a code\<close>

text \<open>
  C3, as stated, fails: an upload that \<open>Image.open\<close> accepts and in which the detector
  would find nothing still ends in the error banner when re-saving it as PNG raises (PIL
  does so for a CMYK JPEG, whatever it shows). The detector is never reached.
\<close>

theorem solid_image_reports_error:
  "Image_open (fixed_libs (Inr ''solid'') (Inl (Exception ''cannot write mode CMYK as PNG''))
                 (Inr ([], None, None))) [255, 216, 255] = Inr ''solid''
   \<and> detectAndDecode (fixed_libs (Inr ''solid'') (Inl (Exception ''cannot write mode CMYK as PNG''))
                 (Inr ([], None, None))) None = Inr ([], None, None)
   \<and> fst (decode_tab (fixed_libs (Inr ''solid'') (Inl (Exception ''cannot write mode CMYK as PNG''))
                 (Inr ([], None, None)))
          (request [] False (Some [255, 216, 255])) Map.empty) =
       Inr [decode_header, Image_pil ''solid'' ''Uploaded Image'',
            Error ''Error processing image: cannot write mode CMYK as PNG'']"
  by (simp add: decode_tab_def try_body_def request_def fixed_libs_def)

text \<open>
  C3, amended. When the upload parses, is displayed and re-saved as PNG without an
  exception and the detector returns without an exception and with an empty string (no
  region gave a payload), the script completes the tab with exactly the banner
  "No QR code detected in the image.": no exception, no error-processing banner, no
  decoded text.
\<close>

theorem no_payload_is_not_found:
  assumes "uploaded_file inp = Some upload"
    and "Image_open L upload = Inr im"
    and "st_image L im ''Uploaded Image'' = Inr ()"
    and "image_save L im (NamedTemporaryFile L files ''.png'') = Inr png"
    and "detectAndDecode L (cv2_imread L (Some png)) = Inr ([], bbox, sc)"
  shows "fst (decode_tab L inp files) =
           Inr [decode_header, Image_pil im ''Uploaded Image'',
                Error ''No QR code detected in the image.'']"
  using decode_tab_detected [OF assms] by (simp add: display_results_def)

theorem no_payload_is_not_found_witness:
  "fst (decode_tab (fixed_libs (Inr ''solid'') (Inr [137, 80, 78, 71]) (Inr ([], None, None)))
          (request [] False (Some [66, 77])) Map.empty) =
     Inr [decode_header, Image_pil ''solid'' ''Uploaded Image'',
          Error ''No QR code detected in the image.'']"
  using no_payload_is_not_found
    [where inp = "request [] False (Some [66, 77])"
       and L = "fixed_libs (Inr ''solid'') (Inr [137, 80, 78, 71]) (Inr ([], None, None))"
       and files = Map.empty and upload = "[66, 77]" and im = "''solid''"
       and png = "[137, 80, 78, 71]" and bbox = None and sc = None]
  by (simp add: request_def fixed_libs_def)

section \<open>Bytes that are not an image\<close>

text \<open>
  C4 (the code departs from the claim). \<open>Image.open\<close> is called on line 178, before the
  \<open>try\<close> of line 183. When it raises, the handler of line 220 is not in force: the
  exception leaves the decode tab and ends the script run, and no
  "Error processing image" banner is produced.
\<close>

theorem unparsable_upload_leaves_script:
  "fst (script (fixed_libs (Inl (Exception ''cannot identify image file'')) (Inr [])
                 (Inr ([], None, None)))
          (request [] False (Some [104, 101, 108, 108, 111])) no_session Map.empty)
     = Some (Exception ''cannot identify image file'')
   \<and> fst (decode_tab (fixed_libs (Inl (Exception ''cannot identify image file'')) (Inr [])
                 (Inr ([], None, None)))
          (request [] False (Some [104, 101, 108, 108, 111])) Map.empty)
     = Inl (Exception ''cannot identify image file'')"
  by (simp add: script_def tab1_def generate_def preview_def decode_tab_def request_def
        fixed_libs_def no_session_def)

section \<open>The URL affordance\<close>

text \<open>\<open>str.startswith\<close> as modelled is the prefix order on lists.\<close>

lemma startswith_prefix: "startswith s p \<longleftrightarrow> prefix p s"
  unfolding startswith_def
  by (metis append_take_drop_id prefix_def append_eq_conv_conj)

lemma open_url_shown_iff:
  assumes "decoded_data \<noteq> []"
  shows "Markdown (''[Open URL]('' @ decoded_data @ '')'')
           \<in> set (display_results decoded_data copy :: 'img ui list)
         \<longleftrightarrow> startswith_any decoded_data [''http://'', ''https://'', ''www.'']"
  using assms by (simp add: display_results_def)

text \<open>
  C8. Whenever the detector is reached (the upload was parsed, displayed and re-saved
  without an exception) and returns a non-empty text, the decode tab completes, shows
  that text in the text area, and shows the "Open URL" link for it if and only if the text
  begins with \<open>http://\<close>, \<open>https://\<close> or \<open>www.\<close>; nothing else about the text is
  examined.
\<close>

theorem url_flag_iff_prefix:
  assumes "uploaded_file inp = Some upload"
    and "Image_open L upload = Inr im"
    and "st_image L im ''Uploaded Image'' = Inr ()"
    and "image_save L im (NamedTemporaryFile L files ''.png'') = Inr png"
    and "detectAndDecode L (cv2_imread L (Some png)) = Inr (decoded_data, bbox, sc)"
    and "decoded_data \<noteq> []"
  shows "\<exists>shown. fst (decode_tab L inp files) = Inr shown
           \<and> Text_area [] decoded_data \<in> set shown
           \<and> (Markdown (''[Open URL]('' @ decoded_data @ '')'') \<in> set shown
                \<longleftrightarrow> prefix ''http://'' decoded_data \<or> prefix ''https://'' decoded_data
                     \<or> prefix ''www.'' decoded_data)"
proof -
  let ?shown = "[decode_header, Image_pil im ''Uploaded Image'']
                 @ display_results decoded_data (copy_clicked inp)"
  have run: "fst (decode_tab L inp files) = Inr ?shown"
    using decode_tab_detected [OF assms(1-5)] by simp
  have area: "Text_area [] decoded_data \<in> set ?shown"
    using assms(6) by (simp add: display_results_def)
  have "Markdown (''[Open URL]('' @ decoded_data @ '')'') \<in> set ?shown
        \<longleftrightarrow> startswith_any decoded_data [''http://'', ''https://'', ''www.'']"
    using open_url_shown_iff [OF assms(6)] by (simp add: decode_header_def)
  also have "\<dots> \<longleftrightarrow> prefix ''http://'' decoded_data \<or> prefix ''https://'' decoded_data
                     \<or> prefix ''www.'' decoded_data"
    by (simp add: startswith_any_def startswith_prefix)
  finally show ?thesis using run area by blast
qed

text \<open>
  The two texts the specification names: the link is shown for \<open>https://example.com\<close>
  and not for \<open>hello world\<close>.
\<close>

theorem url_flag_iff_prefix_witness:
  "Markdown ''[Open URL](https://example.com)''
     \<in> set (projr (fst (decode_tab
           (fixed_libs (Inr ''qr'') (Inr [137, 80, 78, 71])
              (Inr (''https://example.com'', Some [1], Some [2])))
           (request [] False (Some [137, 80, 78, 71])) Map.empty)))
   \<and> Markdown ''[Open URL](hello world)''
     \<notin> set (projr (fst (decode_tab
           (fixed_libs (Inr ''qr'') (Inr [137, 80, 78, 71])
              (Inr (''hello world'', Some [1], Some [2])))
           (request [] False (Some [137, 80, 78, 71])) Map.empty)))"
  using url_flag_iff_prefix
    [where inp = "request [] False (Some [137, 80, 78, 71])"
       and L = "fixed_libs (Inr ''qr'') (Inr [137, 80, 78, 71])
                  (Inr (''https://example.com'', Some [1], Some [2]))"
       and files = Map.empty and upload = "[137, 80, 78, 71]" and im = "''qr''"
       and png = "[137, 80, 78, 71]" and decoded_data = "''https://example.com''"
       and bbox = "Some [1]" and sc = "Some [2]"]
    url_flag_iff_prefix
    [where inp = "request [] False (Some [137, 80, 78, 71])"
       and L = "fixed_libs (Inr ''qr'') (Inr [137, 80, 78, 71])
                  (Inr (''hello world'', Some [1], Some [2]))"
       and files = Map.empty and upload = "[137, 80, 78, 71]" and im = "''qr''"
       and png = "[137, 80, 78, 71]" and decoded_data = "''hello world''"
       and bbox = "Some [1]" and sc = "Some [2]"]
  by (auto simp add: request_def fixed_libs_def)

section \<open>A code with an empty payload\<close>



section \<open>State shared between runs\<close>

text \<open>
  What a generating run hands to the library and what it stores: version 1 with
  \<open>fit=True\<close>, the level looked up from the first character of the select box, the two
  sliders as \<open>box_size\<close> and \<open>border\<close>; the image and its PNG bytes go to the session
  state, replacing whatever was there.
\<close>

lemma generate_stores_image:
  assumes "generate_clicked inp" and "qr_data inp \<noteq> []"
    and "error_correction inp = error_level # rest"
    and "qrcode_QRCode L 1 (dict_get error_dict error_level ERROR_CORRECT_M)
           (qr_size inp) (qr_border inp) = Inr qr"
    and "qr_make L (qr_add_data L qr (qr_data inp)) True = Inr qr'"
    and "qr_make_image L qr' (fill_color inp) (back_color inp) = Inr qr_img"
    and "qr_image_save L qr_img ''PNG'' = Inr img_bytes"
  shows "generate L inp s =
           Inr ([], \<lparr>qr_image = Some qr_img, qr_bytes = Some img_bytes, show_qr = Some True\<rparr>)"
  using assms by (cases s) (simp add: generate_def)

lemma generate_overwrites_session:
  assumes "generate_clicked inp" and "qr_data inp \<noteq> []"
  shows "generate L inp s = generate L inp s'"
  using assms
  by (cases s, cases s') (simp add: generate_def split: list.splits sum.splits)

text \<open>
  C9, as stated, fails. A run that generates a code for \<open>A\<close> leaves the image in the
  session state; the same later request (nothing pressed, nothing uploaded) then displays
  that image when it starts from this state, and the placeholder when it starts from an
  empty session.
\<close>

theorem preview_depends_on_earlier_run:
  "fst (snd (snd (script (fixed_libs (Inr ''x'') (Inr [1]) (Inr (''x'', None, None)))
                    (request ''A'' True None) no_session Map.empty)))
     = \<lparr>qr_image = Some ''A'', qr_bytes = Some [65], show_qr = Some True\<rparr>
   \<and> fst (snd (script (fixed_libs (Inr ''x'') (Inr [1]) (Inr (''x'', None, None)))
                (request [] False None)
                \<lparr>qr_image = Some ''A'', qr_bytes = Some [65], show_qr = Some True\<rparr> Map.empty))
     = [generate_header, Subheader ''QR Code Options'', Subheader ''QR Code Preview'',
        Image_bytes [65] ''Generated QR Code'',
        Download_button ''Download QR Code'' [65] ''qrcode_20240101_120000.png'' ''image/png'',
        Info ''Encoded data: '', decode_header]
   \<and> fst (snd (script (fixed_libs (Inr ''x'') (Inr [1]) (Inr (''x'', None, None)))
                (request [] False None) no_session Map.empty))
     = [generate_header, Subheader ''QR Code Options'', Subheader ''QR Code Preview'',
        Info ''QR code preview will appear here after generation.'',
        Image_url ''https://via.placeholder.com/300x300?text=QR+Code+Preview'', decode_header]"
  by (simp add: script_def tab1_def generate_def preview_def decode_tab_def request_def
        fixed_libs_def no_session_def error_dict_def dict_get_def)

text \<open>
  C9, amended. The session state is shared between runs by design: a successful generate
  stores its image there and the preview of every run reads it. A run in which Generate is
  pressed with non-empty content does not depend on the session state an earlier run
  left: the generate tab gives the same result (the same exception, or the same display
  and the same stored state), and the whole run ends with the same exception or none and
  displays the same, from any two earlier session states.
\<close>

theorem generating_run_ignores_earlier_session:
  assumes "generate_clicked inp" and "qr_data inp \<noteq> []"
  shows "tab1 L inp s = tab1 L inp s'
       \<and> fst (script L inp s files) = fst (script L inp s' files)
       \<and> fst (snd (script L inp s files)) = fst (snd (script L inp s' files))"
proof -
  have t: "tab1 L inp s = tab1 L inp s'"
    using generate_overwrites_session [OF assms, of L s s'] by (simp add: tab1_def)
  then show ?thesis
    by (simp add: script_def split: sum.splits prod.splits)
qed

theorem generating_run_ignores_earlier_session_witness:
  "generate_clicked (request ''B'' True None) \<and> qr_data (request ''B'' True None) \<noteq> []
   \<and> tab1 (fixed_libs (Inr ''x'') (Inr [1]) (Inr (''x'', None, None))) (request ''B'' True None)
        \<lparr>qr_image = Some ''A'', qr_bytes = Some [65], show_qr = Some True\<rparr>
     = tab1 (fixed_libs (Inr ''x'') (Inr [1]) (Inr (''x'', None, None))) (request ''B'' True None)
        no_session"
  using generating_run_ignores_earlier_session
    [where inp = "request ''B'' True None"
       and L = "fixed_libs (Inr ''x'') (Inr [1]) (Inr (''x'', None, None))"
       and s = "\<lparr>qr_image = Some ''A'', qr_bytes = Some [65], show_qr = Some True\<rparr>"
       and s' = no_session]
  by (simp add: request_def)


end
